theory Spec2Isabelle
  imports Main "HOL-Library.Word"
begin

unbundle bit_operations_syntax

section \<open>StarryPy3k proxy core (server.py)\<close>

text \<open>
  A shallow embedding of \<^verbatim>\<open>server.py\<close>: the frame decoder \<^verbatim>\<open>read_packet\<close>, the
  per-client connection object \<^verbatim>\<open>StarryPyServer\<close> with its two pump loops and its
  teardown, and the registry \<^verbatim>\<open>ServerFactory\<close>.

  Python exceptions are values of the type \<open>error\<close>; an operation that mutates objects
  returns the new world together with either the exception it raised or its result, so
  that the mutations made before a raise stay visible, as they do in Python.
\<close>

subsection \<open>Bytes, exceptions, log records\<close>

type_synonym byte = "8 word"
type_synonym bytes = "byte list"

text \<open>
  The exceptions the modelled code can meet. \<open>ConnectionResetError\<close> and
  \<open>BrokenPipeError\<close> are subclasses of Python's \<open>ConnectionError\<close>; \<open>TimeoutError\<close>
  is a subclass of \<open>OSError\<close> that is not a \<open>ConnectionError\<close>.
\<close>

datatype error =
    IncompleteReadError
  | ZlibError
  | TypeError
  | KeyError
  | ValueError
  | AttributeError
  | ConnectionResetError
  | BrokenPipeError
  | ConnectionRefusedError
  | TimeoutError
  | PluginError

fun is_ConnectionError :: "error \<Rightarrow> bool" where
  "is_ConnectionError ConnectionResetError = True"
| "is_ConnectionError BrokenPipeError = True"
| "is_ConnectionError ConnectionRefusedError = True"
| "is_ConnectionError _ = False"

datatype level = DEBUG | INFO | WARNING | EXCEPTION

text \<open>
  A log record is the level and the format string of the logging call; the formatted
  arguments are not kept.
\<close>

type_synonym log = "(level \<times> string) list"

subsection \<open>Stream readers\<close>

text \<open>
  An \<^verbatim>\<open>asyncio.StreamReader\<close> is the list of the bytes that arrive on it before the end
  of the stream. \<^verbatim>\<open>readexactly(n)\<close> returns the next \<open>n\<close> bytes and the rest of the
  stream, or raises \<open>IncompleteReadError\<close> when the stream ends first.
\<close>

definition readexactly :: "nat \<Rightarrow> bytes \<Rightarrow> error + (bytes \<times> bytes)" where
  "readexactly n s =
     (if n \<le> length s then Inr (take n s, drop n s) else Inl IncompleteReadError)"

text \<open>Python's \<^verbatim>\<open>ord\<close> on a bytes object: defined on length 1 only.\<close>

definition ord :: "bytes \<Rightarrow> error + int" where
  "ord bs = (case bs of [b] \<Rightarrow> Inr (uint b) | _ \<Rightarrow> Inl TypeError)"

subsection \<open>The signed-VLQ reader and the decompressor\<close>

text \<open>
  \<^verbatim>\<open>read_packet\<close> calls two functions that are not part of \<^verbatim>\<open>server.py\<close>:
  \<^verbatim>\<open>utilities.read_signed_vlq\<close>, which reads from the stream and returns the decoded
  integer together with the bytes it consumed, and \<^verbatim>\<open>zlib\<close>'s decompressor. Both are
  parameters of the model. A VLQ reader takes the stream and returns the pair
  (value, raw bytes) and the rest of the stream, or raises; a decompressor returns
  \<open>None\<close> where \<^verbatim>\<open>zlib\<close> raises \<^verbatim>\<open>zlib.error\<close>.
\<close>

type_synonym vlq_reader = "bytes \<Rightarrow> error + ((int \<times> bytes) \<times> bytes)"
type_synonym decompressor = "bytes \<Rightarrow> bytes option"

text \<open>
  Modelled from the spec: \<^verbatim>\<open>utilities.read_vlq\<close> and \<^verbatim>\<open>utilities.read_signed_vlq\<close> are
  missing from the sources. The spec describes a base-128 encoding whose continuation
  bit is the high bit of each byte and whose value bits are the low 7 bits, accumulated
  little-endian, with bit 0 of the decoded value as the sign, and asks for both the
  decoded integer and the raw bytes consumed. This instance is used to run the model on
  concrete streams.
\<close>

fun read_vlq :: "bytes \<Rightarrow> error + ((nat \<times> bytes) \<times> bytes)" where
  "read_vlq [] = Inl IncompleteReadError"
| "read_vlq (b # s) =
     (if b AND 0x80 = 0 then Inr ((unat b, [b]), s)
      else (case read_vlq s of
              Inl e \<Rightarrow> Inl e
            | Inr ((v, d), r) \<Rightarrow> Inr ((unat (b AND 0x7f) + 128 * v, b # d), r)))"

definition read_signed_vlq :: vlq_reader where
  "read_signed_vlq s =
     (case read_vlq s of
        Inl e \<Rightarrow> Inl e
      | Inr ((v, d), r) \<Rightarrow>
          Inr ((if even v then int (v div 2) else - (int (v div 2) + 1), d), r))"

subsection \<open>Packets and \<^verbatim>\<open>read_packet\<close>\<close>

text \<open>
  The dictionary \<^verbatim>\<open>p\<close> that \<^verbatim>\<open>read_packet\<close> returns has a fixed set of keys, so it is
  a record; \<open>ptype\<close> is the key \<^verbatim>\<open>'type'\<close> and \<open>psize\<close> the key \<^verbatim>\<open>'size'\<close>.
\<close>

record packet =
  ptype :: int
  psize :: int
  compressed :: bool
  data :: bytes
  original_data :: bytes
  direction :: string

text \<open>
  \<^verbatim>\<open>read_packet(reader, direction)\<close>. The result is the list of the log records it
  emitted and either the exception raised or the packet with the rest of the stream.
\<close>

definition read_packet ::
  "vlq_reader \<Rightarrow> decompressor \<Rightarrow> bytes \<Rightarrow> string \<Rightarrow> log \<times> (error + (packet \<times> bytes))" where
  "read_packet rsv decompress reader dir =
     (let l0 = [(DEBUG, ''New packet. Direction: %s''),
                (DEBUG, ''Attempting to read packet type'')]
      in case readexactly 1 reader of
           Inl e \<Rightarrow> (l0, Inl e)
         | Inr (packet_type, s1) \<Rightarrow>
       (case ord packet_type of
           Inl e \<Rightarrow> (l0, Inl e)
         | Inr ty \<Rightarrow>
       (let l1 = l0 @ [(DEBUG, ''Got packet type of %d''),
                       (DEBUG, ''Attempting to read/parse packet size.'')]
        in case rsv s1 of
           Inl e \<Rightarrow> (l1, Inl e)
         | Inr ((vlq, packet_size_data), s2) \<Rightarrow>
       (let packet_size = (if vlq < 0 then \<bar>vlq\<bar> else vlq);
            compressed = (vlq < 0);
            l2 = l1 @ [(DEBUG, ''Attempting to read %d bytes of data.'')]
        in case readexactly (nat packet_size) s2 of
           Inl e \<Rightarrow> (l2, Inl e)
         | Inr (dat, s3) \<Rightarrow>
       (if \<not> compressed then
          (l2 @ [(DEBUG, ''Packet is not compressed.''),
                 (DEBUG, ''Completed packet parsing, returning.'')],
           Inr (\<lparr>ptype = ty, psize = packet_size, compressed = compressed, data = dat,
                  original_data = packet_type @ packet_size_data @ dat,
                  direction = dir\<rparr>, s3))
        else
          (case decompress dat of
             None \<Rightarrow>
               (l2 @ [(DEBUG, ''Packet is compressed, attempting to decompress.''),
                      (EXCEPTION, ''Couldn't decompress packet.'')],
                Inl ZlibError)
           | Some z \<Rightarrow>
               (l2 @ [(DEBUG, ''Packet is compressed, attempting to decompress.''),
                      (DEBUG, ''Completed packet parsing, returning.'')],
                Inr (\<lparr>ptype = ty, psize = packet_size, compressed = compressed, data = z,
                       original_data = packet_type @ packet_size_data @ dat,
                       direction = dir\<rparr>, s3))))))))"

subsection \<open>Writers, tasks, connection state\<close>

text \<open>
  An \<^verbatim>\<open>asyncio.StreamWriter\<close> is known by the calls made on it: \<open>writes\<close> lists the
  arguments of the calls of \<^verbatim>\<open>write\<close> in order, \<open>drains\<close> counts the calls of
  \<^verbatim>\<open>drain\<close>, \<open>closed\<close> tells whether \<^verbatim>\<open>close\<close> was called. What the transport does
  is outside the program: \<open>drain_exc\<close> is the exception that \<^verbatim>\<open>drain\<close> raises on this
  writer (for example \<open>ConnectionResetError\<close> once the peer is gone), \<open>None\<close> when it
  returns normally.
\<close>

record writer =
  writes :: "bytes list"
  drains :: nat
  closed :: bool
  drain_exc :: "error option"

datatype task = Pending | CancelRequested

datatype State =
    VERSION_SENT
  | CLIENT_CONNECT_RECEIVED
  | HANDSHAKE_CHALLENGE_SENT
  | HANDSHAKE_RESPONSE_RECEIVED
  | CONNECT_RESPONSE_SENT
  | CONNECTED
  | CONNECTED_WITH_HEARTBEAT

text \<open>
  The attributes of a \<^verbatim>\<open>StarryPyServer\<close> object, without the leading underscores.
  \<open>reader\<close> and \<open>writer\<close> are the stream pair of the game client, \<open>client_reader\<close>
  and \<open>client_writer\<close> the stream pair towards the real server (\<open>None\<close> until it is
  dialled). \<open>player\<close> is \<open>Some name\<close> when a plugin has set the attribute
  \<^verbatim>\<open>player\<close>, which \<^verbatim>\<open>die\<close> tests with \<^verbatim>\<open>hasattr\<close>.
\<close>

record conn =
  reader :: bytes
  writer :: writer
  client_reader :: "bytes option"
  client_writer :: "writer option"
  client_loop_future :: "task option"
  server_loop_future :: task
  state :: "State option"
  alive :: bool
  player :: "string option"

text \<open>
  Objects have identity: a connection is an address in \<open>heap\<close>, and the registry
  \<^verbatim>\<open>ServerFactory.protocols\<close> is a list of addresses. \<open>next_id\<close> is the next unused
  address, \<open>logged\<close> the records written to the logger so far.
\<close>

type_synonym cid = nat

record world =
  heap :: "cid \<Rightarrow> conn"
  protocols :: "cid list"
  next_id :: cid
  logged :: log

type_synonym 'a result = "world \<times> (error + 'a)"

definition upd :: "cid \<Rightarrow> (conn \<Rightarrow> conn) \<Rightarrow> world \<Rightarrow> world" where
  "upd c f w = w\<lparr>heap := (heap w)(c := f (heap w c))\<rparr>"

definition logs :: "log \<Rightarrow> world \<Rightarrow> world" where
  "logs l w = w\<lparr>logged := logged w @ l\<rparr>"

subsection \<open>Collaborators outside \<^verbatim>\<open>server.py\<close>\<close>

text \<open>
  The modules \<^verbatim>\<open>packets\<close>, \<^verbatim>\<open>plugin_manager\<close>, \<^verbatim>\<open>data_parser\<close> and \<^verbatim>\<open>pparser\<close> are
  not part of \<^verbatim>\<open>server.py\<close>; what the code uses of them is a parameter. \<open>packets\<close> is
  the table from packet type to packet name, \<open>plugin_do\<close> is
  \<^verbatim>\<open>PluginManager.do(connection, name, packet)\<close>, which may change any object and may
  raise, \<open>chat_build\<close> is \<^verbatim>\<open>ChatReceived.build\<close> on the dictionary of message, world,
  client id, name and channel, and \<open>build_packet\<close> is \<^verbatim>\<open>pparser.build_packet\<close>.
\<close>

record collab =
  vlq :: vlq_reader
  inflate :: decompressor
  packets :: "int \<Rightarrow> string option"
  plugin_do :: "cid \<Rightarrow> string \<Rightarrow> packet \<Rightarrow> world \<Rightarrow> bool result"
  chat_build :: "string \<Rightarrow> string \<Rightarrow> int \<Rightarrow> string \<Rightarrow> int \<Rightarrow> bytes"
  build_packet :: "int \<Rightarrow> bytes \<Rightarrow> bytes"

subsection \<open>\<^verbatim>\<open>ServerFactory\<close>: the registry\<close>

text \<open>
  \<^verbatim>\<open>ServerFactory.remove\<close> is \<^verbatim>\<open>self.protocols.remove(protocol)\<close>: Python's
  \<^verbatim>\<open>list.remove\<close> deletes the first element equal to its argument and raises
  \<open>ValueError\<close> when there is none. \<^verbatim>\<open>StarryPyServer\<close> defines no \<^verbatim>\<open>__eq__\<close>, so
  equality is identity.
\<close>

definition remove :: "world \<Rightarrow> cid \<Rightarrow> unit result" where
  "remove w c =
     (if c \<in> set (protocols w) then (w\<lparr>protocols := remove1 c (protocols w)\<rparr>, Inr ())
      else (w, Inl ValueError))"

subsection \<open>\<^verbatim>\<open>StarryPyServer\<close>: construction, writes, teardown\<close>

text \<open>
  \<^verbatim>\<open>__init__\<close> logs a warning, stores the client's stream pair, creates the task of
  \<^verbatim>\<open>server_loop\<close> (which runs later), and sets \<^verbatim>\<open>state\<close> to \<^verbatim>\<open>None\<close> and
  \<^verbatim>\<open>_alive\<close> to \<^verbatim>\<open>True\<close>.
\<close>

definition init :: "bytes \<Rightarrow> writer \<Rightarrow> conn" where
  "init r wr =
     \<lparr>reader = r, writer = wr, client_reader = None, client_writer = None,
      client_loop_future = None, server_loop_future = Pending, state = None,
      alive = True, player = None\<rparr>"

text \<open>
  \<^verbatim>\<open>ServerFactory.__call__\<close>: a new object at a fresh address, appended to the
  registry. The address of the new connection is \<open>next_id\<close> of the world before.
\<close>

definition factory_call :: "world \<Rightarrow> bytes \<Rightarrow> writer \<Rightarrow> world" where
  "factory_call w r wr =
     (let c = next_id w;
          w1 = logs [(WARNING, ''Initializing protocol.'')] w;
          w2 = w1\<lparr>heap := (heap w1)(c := init r wr), next_id := Suc c\<rparr>
      in w2\<lparr>protocols := protocols w2 @ [c]\<rparr>)"

definition w_write :: "bytes \<Rightarrow> writer \<Rightarrow> writer" where
  "w_write d wr = wr\<lparr>writes := writes wr @ [d]\<rparr>"

definition w_close :: "writer \<Rightarrow> writer" where
  "w_close wr = wr\<lparr>closed := True\<rparr>"

text \<open>\<^verbatim>\<open>yield from self._writer.drain()\<close>: counted on the writer, then its outcome.\<close>

definition drain_writer :: "world \<Rightarrow> cid \<Rightarrow> unit result" where
  "drain_writer w c =
     (let w1 = upd c (\<lambda>s. s\<lparr>writer := (writer s)\<lparr>drains := Suc (drains (writer s))\<rparr>\<rparr>) w
      in case drain_exc (writer (heap w c)) of
           Some e \<Rightarrow> (w1, Inl e)
         | None \<Rightarrow> (w1, Inr ()))"

text \<open>
  \<^verbatim>\<open>write\<close> (named \<open>write_pkt\<close>, since \<open>write\<close> is a keyword of Isabelle): the
  packet's original bytes to the game client.
\<close>

definition write_pkt :: "world \<Rightarrow> cid \<Rightarrow> packet \<Rightarrow> unit result" where
  "write_pkt w c p =
     drain_writer (upd c (\<lambda>s. s\<lparr>writer := w_write (original_data p) (writer s)\<rparr>) w) c"

definition raw_write :: "world \<Rightarrow> cid \<Rightarrow> bytes \<Rightarrow> unit result" where
  "raw_write w c d =
     drain_writer (upd c (\<lambda>s. s\<lparr>writer := w_write d (writer s)\<rparr>) w) c"

text \<open>
  \<^verbatim>\<open>write_client\<close>: the packet's original bytes to \<^verbatim>\<open>_client_writer\<close>, then
  \<^verbatim>\<open>drain\<close> on \<^verbatim>\<open>_writer\<close>, as the source has it. Calling \<^verbatim>\<open>write\<close> on \<^verbatim>\<open>None\<close>
  raises \<open>AttributeError\<close>.
\<close>

definition write_client :: "world \<Rightarrow> cid \<Rightarrow> packet \<Rightarrow> unit result" where
  "write_client w c p =
     (case client_writer (heap w c) of
        None \<Rightarrow> (w, Inl AttributeError)
      | Some cw \<Rightarrow>
          drain_writer
            (upd c (\<lambda>s. s\<lparr>client_writer := Some (w_write (original_data p) cw)\<rparr>) w) c)"

text \<open>\<^verbatim>\<open>send_message\<close>, with its keyword arguments in the order of the source.\<close>

definition send_message ::
  "collab \<Rightarrow> world \<Rightarrow> cid \<Rightarrow> string \<Rightarrow> string \<Rightarrow> int \<Rightarrow> string \<Rightarrow> int \<Rightarrow> unit result" where
  "send_message k w c message world client_id name channel =
     (if state (heap w c) = Some CONNECTED_WITH_HEARTBEAT then
        (let chat_packet = chat_build k message world client_id name channel;
             to_send = build_packet k 4 chat_packet
         in raw_write w c to_send)
      else (w, Inr ()))"

text \<open>
  \<^verbatim>\<open>die\<close>. Each statement of the body is one step; a step that raises leaves the
  effects of the steps before it and skips the rest, so \<^verbatim>\<open>_alive\<close> stays \<^verbatim>\<open>True\<close>.
\<close>

definition die :: "world \<Rightarrow> cid \<Rightarrow> unit result" where
  "die w c =
     (if alive (heap w c) then
        (let w1 = logs [(INFO, (case player (heap w c) of
                                  Some n \<Rightarrow> ''Removing player %s.''
                                | None \<Rightarrow> ''Removing unknown player.''))] w;
             w2 = upd c (\<lambda>s. s\<lparr>writer := w_close (writer s)\<rparr>) w1
         in case client_writer (heap w2 c) of
              None \<Rightarrow> (w2, Inl AttributeError)
            | Some cw \<Rightarrow>
         (let w3 = upd c (\<lambda>s. s\<lparr>client_writer := Some (w_close cw)\<rparr>) w2;
              w4 = upd c (\<lambda>s. s\<lparr>server_loop_future := CancelRequested\<rparr>) w3
          in case client_loop_future (heap w4 c) of
               None \<Rightarrow> (w4, Inl AttributeError)
             | Some t \<Rightarrow>
          (let w5 = upd c (\<lambda>s. s\<lparr>client_loop_future := Some CancelRequested\<rparr>) w4
           in case remove w5 c of
                (w6, Inl e) \<Rightarrow> (w6, Inl e)
              | (w6, Inr u) \<Rightarrow> (upd c (\<lambda>s. s\<lparr>alive := False\<rparr>) w6, Inr ()))))
      else (w, Inr ()))"

subsection \<open>The pump loops\<close>

text \<open>
  \<^verbatim>\<open>check_plugins\<close>: the table lookup \<^verbatim>\<open>packets[packet['type']]\<close> raises \<open>KeyError\<close>
  for a type that the table lacks, before the plugin manager is called.
\<close>

definition check_plugins :: "collab \<Rightarrow> world \<Rightarrow> cid \<Rightarrow> packet \<Rightarrow> bool result" where
  "check_plugins k w c p =
     (case packets k (ptype p) of
        None \<Rightarrow> (w, Inl KeyError)
      | Some nm \<Rightarrow> plugin_do k c nm p w)"

text \<open>
  The \<^verbatim>\<open>while True\<close> loop of \<^verbatim>\<open>server_loop\<close>. It has no exit but an exception, so
  its result is the world at the raise and the exception; \<open>None\<close> is a loop that never
  ends. Each round reads one packet from \<^verbatim>\<open>_reader\<close>, asks the plugins, and calls
  \<^verbatim>\<open>write_client\<close> when their answer is true. A read that raises ends the loop, and the
  stream is not read again, so \<open>reader\<close> is left as it was before that read.
\<close>

partial_function (option) server_pump :: "collab \<Rightarrow> world \<Rightarrow> cid \<Rightarrow> (world \<times> error) option" where
  "server_pump k w c =
     (case read_packet (vlq k) (inflate k) (reader (heap w c)) ''Client'' of
        (l, Inl e) \<Rightarrow> Some (logs l w, e)
      | (l, Inr (p, rest)) \<Rightarrow>
          (case check_plugins k (upd c (\<lambda>s. s\<lparr>reader := rest\<rparr>) (logs l w)) c p of
             (w2, Inl e) \<Rightarrow> Some (w2, e)
           | (w2, Inr flag) \<Rightarrow>
               if flag then
                 (case write_client w2 c p of
                    (w3, Inl e) \<Rightarrow> Some (w3, e)
                  | (w3, Inr u) \<Rightarrow> server_pump k w3 c)
               else server_pump k w2 c))"

declare server_pump.simps [code]

text \<open>
  The same loop of \<^verbatim>\<open>client_loop\<close>, reading from \<^verbatim>\<open>_client_reader\<close> and calling
  \<^verbatim>\<open>write\<close>. With \<^verbatim>\<open>_client_reader\<close> still \<^verbatim>\<open>None\<close>, \<^verbatim>\<open>read_packet\<close> raises
  \<open>AttributeError\<close> at its first read, after its first two log calls.
\<close>

partial_function (option) client_pump :: "collab \<Rightarrow> world \<Rightarrow> cid \<Rightarrow> (world \<times> error) option" where
  "client_pump k w c =
     (case client_reader (heap w c) of
        None \<Rightarrow>
          Some (logs [(DEBUG, ''New packet. Direction: %s''),
                      (DEBUG, ''Attempting to read packet type'')] w, AttributeError)
      | Some r \<Rightarrow>
     (case read_packet (vlq k) (inflate k) r ''Server'' of
        (l, Inl e) \<Rightarrow> Some (logs l w, e)
      | (l, Inr (p, rest)) \<Rightarrow>
          (case check_plugins k (upd c (\<lambda>s. s\<lparr>client_reader := Some rest\<rparr>) (logs l w)) c p of
             (w2, Inl e) \<Rightarrow> Some (w2, e)
           | (w2, Inr send_flag) \<Rightarrow>
               if send_flag then
                 (case write_pkt w2 c p of
                    (w3, Inl e) \<Rightarrow> Some (w3, e)
                  | (w3, Inr u) \<Rightarrow> client_pump k w3 c)
               else client_pump k w2 c)))"

declare client_pump.simps [code]

text \<open>
  \<^verbatim>\<open>finally: self.die()\<close> on the way out of a loop with the exception \<open>e\<close>: an
  exception raised by \<^verbatim>\<open>die\<close> itself replaces \<open>e\<close>.
\<close>

definition finally_die :: "world \<Rightarrow> cid \<Rightarrow> error \<Rightarrow> world \<times> error" where
  "finally_die w c e =
     (case die w c of
        (w', Inl e') \<Rightarrow> (w', e')
      | (w', Inr u) \<Rightarrow> (w', e))"

text \<open>
  The \<^verbatim>\<open>try\<close> statement of \<^verbatim>\<open>server_loop\<close>: the loop, then \<^verbatim>\<open>die\<close> on the way out.
\<close>

definition server_loop_try :: "collab \<Rightarrow> world \<Rightarrow> cid \<Rightarrow> (world \<times> error) option" where
  "server_loop_try k w c =
     (case server_pump k w c of
        None \<Rightarrow> None
      | Some (w1, e) \<Rightarrow> Some (finally_die w1 c e))"

text \<open>
  \<^verbatim>\<open>server_loop\<close>. \<open>dial\<close> is the outcome of \<^verbatim>\<open>asyncio.open_connection\<close>: an exception, or
  the stream pair of the real server. The dial stands before the \<^verbatim>\<open>try\<close>, so its
  exception leaves the coroutine without passing through \<^verbatim>\<open>finally\<close>. The task of
  \<^verbatim>\<open>client_loop\<close> is created here and runs on its own.
\<close>

definition server_loop ::
  "collab \<Rightarrow> error + (bytes \<times> writer) \<Rightarrow> world \<Rightarrow> cid \<Rightarrow> (world \<times> error) option" where
  "server_loop k dial w c =
     (case dial of
        Inl e \<Rightarrow> Some (w, e)
      | Inr (r, cw) \<Rightarrow>
          (let w1 = upd c (\<lambda>s. s\<lparr>client_reader := Some r, client_writer := Some cw\<rparr>) w;
               w2 = upd c (\<lambda>s. s\<lparr>client_loop_future := Some Pending\<rparr>) w1
           in server_loop_try k w2 c))"

text \<open>\<^verbatim>\<open>client_loop\<close> is its \<^verbatim>\<open>try\<close> statement alone.\<close>

definition client_loop :: "collab \<Rightarrow> world \<Rightarrow> cid \<Rightarrow> (world \<times> error) option" where
  "client_loop k w c =
     (case client_pump k w c of
        None \<Rightarrow> None
      | Some (w1, e) \<Rightarrow> Some (finally_die w1 c e))"

subsection \<open>\<^verbatim>\<open>ServerFactory.broadcast\<close>\<close>

text \<open>
  \<^verbatim>\<open>for protocol in self.protocols\<close> walks the list object itself: Python's list
  iterator keeps an index, and each round takes the element at that index of the list as
  it is then, until the index reaches the length. \<^verbatim>\<open>send_message\<close> is awaited in every
  round, and where it suspends (in \<^verbatim>\<open>drain\<close>, which it reaches when the state is
  \<open>CONNECTED_WITH_HEARTBEAT\<close>) the other tasks of the program run: \<open>others i\<close> is what
  they do to the world during round \<open>i\<close>, for example the teardown of a connection whose
  peer has gone. An exception of \<^verbatim>\<open>send_message\<close> that is a \<open>ConnectionError\<close> is
  caught and the loop continues; any other exception leaves the loop. Other tasks may
  lengthen the list for ever, so the loop returns an option.
\<close>

partial_function (option) broadcast_from ::
  "collab \<Rightarrow> (nat \<Rightarrow> world \<Rightarrow> world) \<Rightarrow> world \<Rightarrow> nat \<Rightarrow>
   string \<Rightarrow> string \<Rightarrow> string \<Rightarrow> int \<Rightarrow> int \<Rightarrow> unit result option" where
  "broadcast_from k others w i message world name channel client_id =
     (if i < length (protocols w) then
        (case send_message k w (protocols w ! i) message world client_id name channel of
           (w1, Inl e) \<Rightarrow>
             if is_ConnectionError e
             then broadcast_from k others (others i w1) (Suc i)
                    message world name channel client_id
             else Some (others i w1, Inl e)
         | (w1, Inr u) \<Rightarrow>
             broadcast_from k others
               (if state (heap w (protocols w ! i)) = Some CONNECTED_WITH_HEARTBEAT
                then others i w1 else w1)
               (Suc i) message world name channel client_id)
      else Some (w, Inr ()))"

declare broadcast_from.simps [code]

text \<open>\<^verbatim>\<open>broadcast\<close> among the other tasks: the loop from index 0.\<close>

definition broadcast_live ::
  "collab \<Rightarrow> (nat \<Rightarrow> world \<Rightarrow> world) \<Rightarrow> world \<Rightarrow>
   string \<Rightarrow> string \<Rightarrow> string \<Rightarrow> int \<Rightarrow> int \<Rightarrow> unit result option" where
  "broadcast_live k others w message world name channel client_id =
     broadcast_from k others w 0 message world name channel client_id"

text \<open>
  \<^verbatim>\<open>broadcast\<close> when no other task does anything while it is suspended. Then the list
  stays as it is at the call (\<^verbatim>\<open>send_message\<close> does not change it), the loop is a
  recursion over that list, and it always returns; \<open>broadcast_live\<close> with idle other
  tasks is this function, as is proved below.
\<close>

fun broadcast_loop ::
  "collab \<Rightarrow> world \<Rightarrow> cid list \<Rightarrow> string \<Rightarrow> string \<Rightarrow> string \<Rightarrow> int \<Rightarrow> int \<Rightarrow> unit result" where
  "broadcast_loop k w [] message world name channel client_id = (w, Inr ())"
| "broadcast_loop k w (protocol # rest) message world name channel client_id =
     (case send_message k w protocol message world client_id name channel of
        (w1, Inl e) \<Rightarrow>
          if is_ConnectionError e
          then broadcast_loop k w1 rest message world name channel client_id
          else (w1, Inl e)
      | (w1, Inr u) \<Rightarrow> broadcast_loop k w1 rest message world name channel client_id)"

definition broadcast ::
  "collab \<Rightarrow> world \<Rightarrow> string \<Rightarrow> string \<Rightarrow> string \<Rightarrow> int \<Rightarrow> int \<Rightarrow> unit result" where
  "broadcast k w message world name channel client_id =
     broadcast_loop k w (protocols w) message world name channel client_id"


subsection \<open>Established connections\<close>

text \<open>
  A connection is established when its flag \<^verbatim>\<open>_alive\<close> is set, the real server has
  been dialled and the task of \<^verbatim>\<open>client_loop\<close> created (the state in which both pump
  loops run), and it stands in the registry, which holds no object twice.
\<close>

definition established :: "world \<Rightarrow> cid \<Rightarrow> bool" where
  "established w c \<longleftrightarrow>
     alive (heap w c) \<and> client_writer (heap w c) \<noteq> None \<and>
     client_loop_future (heap w c) \<noteq> None \<and>
     c \<in> set (protocols w) \<and> distinct (protocols w)"

text \<open>
  Plugins that leave the state of every connection as it is. The plugin manager is
  outside \<^verbatim>\<open>server.py\<close>; this is the condition under which what the loops do to the
  state is the doing of the core alone.
\<close>

definition plugins_keep_state :: "collab \<Rightarrow> bool" where
  "plugins_keep_state k \<longleftrightarrow>
     (\<forall>c nm p w c'. state (heap (fst (plugin_do k c nm p w)) c') = state (heap w c'))"

text \<open>
  The registry as \<^verbatim>\<open>__call__\<close> builds it: no connection twice, and every registered
  address already allocated.
\<close>

definition registry_ok :: "world \<Rightarrow> bool" where
  "registry_ok w \<longleftrightarrow>
     distinct (protocols w) \<and> (\<forall>c \<in> set (protocols w). c < next_id w)"

subsection \<open>Concrete values for running the model\<close>

text \<open>
  A writer on which nothing has been called, a world without connections, and stand-ins
  for the collaborators: a decompressor that accepts the inputs starting with the byte
  \<open>0x78\<close> and returns the bytes after it, a packet table that knows every type, plugins
  that forward every packet, and a packet builder that frames its payload behind a type
  byte and a length byte.
\<close>

definition fresh_writer :: writer where
  "fresh_writer = \<lparr>writes = [], drains = 0, closed = False, drain_exc = None\<rparr>"

definition empty_world :: world where
  "empty_world =
     \<lparr>heap = (\<lambda>c. init [] fresh_writer), protocols = [], next_id = 0, logged = []\<rparr>"

definition demo_collab :: collab where
  "demo_collab =
     \<lparr>vlq = read_signed_vlq,
      inflate = (\<lambda>z. case z of [] \<Rightarrow> None | b # r \<Rightarrow> if b = 0x78 then Some r else None),
      packets = (\<lambda>t. Some ''packet''),
      plugin_do = (\<lambda>c nm p w. (w, Inr True)),
      chat_build = (\<lambda>message world client_id name channel.
                      map (\<lambda>x. of_nat (of_char x)) message),
      build_packet = (\<lambda>t payload. of_int t # of_nat (2 * length payload) # payload)\<rparr>"

text \<open>
  The world after one client was accepted and the real server dialled: connection \<open>0\<close>
  reads \<open>r\<close> from the client and \<open>r'\<close> from the real server.
\<close>

definition dialled_world :: "bytes \<Rightarrow> bytes \<Rightarrow> world" where
  "dialled_world r r' =
     upd 0 (\<lambda>s. s\<lparr>client_reader := Some r', client_writer := Some fresh_writer,
                   client_loop_future := Some Pending\<rparr>)
       (factory_call empty_world r fresh_writer)"

text \<open>The same world after a plugin has moved connection \<open>0\<close> to the last stage.\<close>

definition heartbeat_world :: world where
  "heartbeat_world =
     upd 0 (\<lambda>s. s\<lparr>state := Some CONNECTED_WITH_HEARTBEAT\<rparr>) (dialled_world [] [])"



text \<open>
  Other tasks that do nothing, and other tasks in which, during round \<open>0\<close> of a
  broadcast, a pump loop of connection \<open>0\<close> ends and tears the connection down.
\<close>

definition no_others :: "nat \<Rightarrow> world \<Rightarrow> world" where
  "no_others i w = w"


section \<open>Properties\<close>

subsection \<open>Field access through the world updates\<close>

lemma heap_upd: "heap (upd c f w) c' = (if c' = c then f (heap w c) else heap w c')"
  by (simp add: upd_def)

lemma protocols_upd: "protocols (upd c f w) = protocols w"
  by (simp add: upd_def)

lemma logged_upd: "logged (upd c f w) = logged w"
  by (simp add: upd_def)

lemma next_id_upd: "next_id (upd c f w) = next_id w"
  by (simp add: upd_def)

lemma heap_logs: "heap (logs l w) = heap w"
  by (simp add: logs_def)

lemma protocols_logs: "protocols (logs l w) = protocols w"
  by (simp add: logs_def)

lemma logged_logs: "logged (logs l w) = logged w @ l"
  by (simp add: logs_def)

lemma next_id_logs: "next_id (logs l w) = next_id w"
  by (simp add: logs_def)

lemmas world_simps =
  heap_upd protocols_upd logged_upd next_id_upd heap_logs protocols_logs logged_logs
  next_id_logs

lemma established_dialled_world: "established (dialled_world r r') 0"
  by (simp add: established_def dialled_world_def factory_call_def empty_world_def
      init_def world_simps Let_def)

subsection \<open>Decoding a frame\<close>

lemma readexactly_append: "n = length a \<Longrightarrow> readexactly n (a @ b) = Inr (a, b)"
  by (simp add: readexactly_def)

lemma readexactly_one: "readexactly (Suc 0) (t # s) = Inr ([t], s)"
  by (simp add: readexactly_def)

text \<open>
  A valid frame is a type byte \<open>t\<close>, bytes \<open>d\<close> that the VLQ reader takes off the front
  of the stream and decodes to \<open>v\<close>, and \<open>\<bar>v\<bar>\<close> payload bytes \<open>raw\<close> which, when \<open>v\<close>
  is negative, decompress to \<open>z\<close>. On such a frame \<^verbatim>\<open>read_packet\<close> returns this record
  and leaves the stream behind the frame.
\<close>

lemma read_packet_valid_frame:
  assumes "rsv (d @ raw @ rest) = Inr ((v, d), raw @ rest)"
      and "int (length raw) = \<bar>v\<bar>"
      and "v < 0 \<longrightarrow> dec raw = Some z"
  shows "snd (read_packet rsv dec (t # d @ raw @ rest) dir) =
           Inr (\<lparr>ptype = uint t, psize = \<bar>v\<bar>, compressed = (v < 0),
                  data = (if v < 0 then z else raw), original_data = t # d @ raw,
                  direction = dir\<rparr>, rest)"
proof (cases "v < 0")
  case True
  then have "readexactly (nat (- v)) (raw @ rest) = Inr (raw, rest)"
    using assms(2) by (intro readexactly_append) simp
  with True assms(1,3) show ?thesis
    by (simp add: read_packet_def readexactly_one ord_def)
next
  case False
  then have "readexactly (nat v) (raw @ rest) = Inr (raw, rest)"
    using assms(2) by (intro readexactly_append) simp
  with False assms(1) show ?thesis
    by (simp add: read_packet_def readexactly_one ord_def)
qed

lemma demo_vlq_10: "read_signed_vlq (10 # s) = Inr ((5, [10]), s)"
  by (simp add: read_signed_vlq_def)

lemma demo_vlq_3: "read_signed_vlq (3 # s) = Inr ((- 2, [3]), s)"
  by (simp add: read_signed_vlq_def)

text \<open>
  Claim C1. For every valid frame (any type byte \<open>t\<close>, any payload length, compressed
  or not) \<^verbatim>\<open>read_packet\<close> returns a record, and the field \<open>original_data\<close> of the
  record is the frame as it stood on the wire: the type byte, the VLQ bytes as read, and
  the payload bytes before decompression.
\<close>

theorem read_packet_original_data:
  assumes "rsv (d @ raw @ rest) = Inr ((v, d), raw @ rest)"
      and "int (length raw) = \<bar>v\<bar>"
      and "v < 0 \<longrightarrow> dec raw = Some z"
  shows "\<exists>p. snd (read_packet rsv dec (t # d @ raw @ rest) dir) = Inr (p, rest) \<and>
             original_data p = t # d @ raw"
proof -
  have "snd (read_packet rsv dec (t # d @ raw @ rest) dir) =
          Inr (\<lparr>ptype = uint t, psize = \<bar>v\<bar>, compressed = (v < 0),
                 data = (if v < 0 then z else raw), original_data = t # d @ raw,
                 direction = dir\<rparr>, rest)"
    using assms by (rule read_packet_valid_frame)
  then show ?thesis by simp
qed

theorem read_packet_original_data_witness:
  "read_signed_vlq ([10] @ [104, 101, 108, 108, 111] @ [9]) =
     Inr ((5, [10]), [104, 101, 108, 108, 111] @ [9]) \<and>
   (\<exists>p. snd (read_packet read_signed_vlq (\<lambda>x. None)
              (4 # [10] @ [104, 101, 108, 108, 111] @ [9]) ''Client'') = Inr (p, [9]) \<and>
        original_data p = 4 # [10] @ [104, 101, 108, 108, 111])"
  using read_packet_original_data
          [of read_signed_vlq "[10]" "[104, 101, 108, 108, 111]" "[9]" 5 "\<lambda>x. None" "[]" 4
              "''Client''"]
  by (simp add: demo_vlq_10)

text \<open>
  Claim C2. On a valid frame the record has \<open>compressed\<close> set exactly when the decoded
  VLQ is negative, \<open>psize\<close> is the absolute value of the VLQ and the number of payload
  bytes read, and \<open>data\<close> is the decompression of the bytes read for a compressed frame
  and the bytes read themselves otherwise.
\<close>

theorem read_packet_fields:
  assumes "rsv (d @ raw @ rest) = Inr ((v, d), raw @ rest)"
      and "int (length raw) = \<bar>v\<bar>"
      and "v < 0 \<longrightarrow> dec raw = Some z"
  shows "\<exists>p. snd (read_packet rsv dec (t # d @ raw @ rest) dir) = Inr (p, rest) \<and>
             compressed p = (v < 0) \<and> psize p = \<bar>v\<bar> \<and> psize p = int (length raw) \<and>
             (v < 0 \<longrightarrow> dec raw = Some (data p)) \<and> (\<not> v < 0 \<longrightarrow> data p = raw)"
proof -
  have "snd (read_packet rsv dec (t # d @ raw @ rest) dir) =
          Inr (\<lparr>ptype = uint t, psize = \<bar>v\<bar>, compressed = (v < 0),
                 data = (if v < 0 then z else raw), original_data = t # d @ raw,
                 direction = dir\<rparr>, rest)"
    using assms by (rule read_packet_valid_frame)
  then show ?thesis using assms(2,3) by simp
qed

theorem read_packet_fields_witness:
  "read_signed_vlq ([3] @ [0x78, 7] @ [9]) = Inr ((- 2, [3]), [0x78, 7] @ [9]) \<and>
   inflate demo_collab [0x78, 7] = Some [7] \<and>
   (\<exists>p. snd (read_packet read_signed_vlq (inflate demo_collab)
              (4 # [3] @ [0x78, 7] @ [9]) ''Server'') = Inr (p, [9]) \<and>
        compressed p \<and> psize p = 2 \<and> data p = [7])"
proof -
  have i: "inflate demo_collab [0x78, 7] = Some [7]"
    by (simp add: demo_collab_def)
  show ?thesis
    using i read_packet_fields
          [of read_signed_vlq "[3]" "[0x78, 7]" "[9]" "- 2" "inflate demo_collab" "[7]" 4
              "''Server''"]
    by (auto simp add: demo_vlq_3)
qed

subsection \<open>Writing and draining\<close>

lemma drain_writer_heap:
  "heap (fst (drain_writer w c)) c' =
     (if c' = c
      then (heap w c)\<lparr>writer := (writer (heap w c))\<lparr>drains := Suc (drains (writer (heap w c)))\<rparr>\<rparr>
      else heap w c')"
  by (simp add: drain_writer_def world_simps Let_def split: option.splits)

lemma drain_writer_protocols: "protocols (fst (drain_writer w c)) = protocols w"
  by (simp add: drain_writer_def world_simps Let_def split: option.splits)

lemma drain_writer_logged: "logged (fst (drain_writer w c)) = logged w"
  by (simp add: drain_writer_def world_simps Let_def split: option.splits)

lemma drain_writer_snd:
  "snd (drain_writer w c) =
     (case drain_exc (writer (heap w c)) of Some e \<Rightarrow> Inl e | None \<Rightarrow> Inr ())"
  by (simp add: drain_writer_def world_simps Let_def split: option.splits)

lemmas drain_writer_simps =
  drain_writer_heap drain_writer_protocols drain_writer_logged drain_writer_snd

text \<open>
  Claim C4. \<^verbatim>\<open>send_message\<close> changes nothing, and so writes to no stream, when the state
  of the connection is not \<open>CONNECTED_WITH_HEARTBEAT\<close>. When it is, the call makes one
  write on the client's writer, of the frame that the packet builder returns for type 4
  and the chat payload, and no write on the writer towards the real server nor on any
  other connection.
\<close>

theorem send_message_needs_heartbeat:
  "(state (heap w c) \<noteq> Some CONNECTED_WITH_HEARTBEAT \<longrightarrow>
      send_message k w c message world client_id name channel = (w, Inr ())) \<and>
   (state (heap w c) = Some CONNECTED_WITH_HEARTBEAT \<longrightarrow>
      writes (writer (heap (fst (send_message k w c message world client_id name channel)) c)) =
        writes (writer (heap w c)) @
          [build_packet k 4 (chat_build k message world client_id name channel)] \<and>
      client_writer (heap (fst (send_message k w c message world client_id name channel)) c) =
        client_writer (heap w c) \<and>
      (\<forall>c'. c' \<noteq> c \<longrightarrow>
         heap (fst (send_message k w c message world client_id name channel)) c' = heap w c'))"
  by (simp add: send_message_def raw_write_def drain_writer_simps world_simps w_write_def Let_def)

theorem send_message_needs_heartbeat_witness:
  "state (heap (dialled_world [] []) 0) \<noteq> Some CONNECTED_WITH_HEARTBEAT \<and>
   send_message demo_collab (dialled_world [] []) 0 ''hi'' [] 0 [] 0 =
     (dialled_world [] [], Inr ()) \<and>
   state (heap heartbeat_world 0) = Some CONNECTED_WITH_HEARTBEAT \<and>
   writes (writer (heap (fst (send_message demo_collab heartbeat_world 0 ''hi'' [] 0 [] 0)) 0)) =
     [[4, 4, 104, 105]] \<and>
   client_writer (heap (fst (send_message demo_collab heartbeat_world 0 ''hi'' [] 0 [] 0)) 0) =
     Some fresh_writer"
  using send_message_needs_heartbeat [of "dialled_world [] []" 0 demo_collab "''hi''" "[]" 0 "[]" 0]
        send_message_needs_heartbeat [of heartbeat_world 0 demo_collab "''hi''" "[]" 0 "[]" 0]
  by (simp add: heartbeat_world_def dialled_world_def factory_call_def empty_world_def
      init_def fresh_writer_def demo_collab_def world_simps Let_def)

subsection \<open>Teardown and the registry\<close>

lemma die_dead: "\<not> alive (heap w c) \<Longrightarrow> die w c = (w, Inr ())"
  by (simp add: die_def)

lemma die_established:
  assumes "established w c"
  shows "\<exists>w'. die w c = (w', Inr ()) \<and>
           closed (writer (heap w' c)) \<and>
           (\<exists>cw. client_writer (heap w' c) = Some cw \<and> closed cw) \<and>
           server_loop_future (heap w' c) = CancelRequested \<and>
           client_loop_future (heap w' c) = Some CancelRequested \<and>
           c \<notin> set (protocols w') \<and> \<not> alive (heap w' c) \<and>
           logged w' = logged w @ [(INFO, case player (heap w c) of
                                            Some n \<Rightarrow> ''Removing player %s.''
                                          | None \<Rightarrow> ''Removing unknown player.'')]"
  using assms
  by (auto simp add: established_def die_def remove_def world_simps w_close_def Let_def)

text \<open>
  Claim C5, as amended. The first call of \<^verbatim>\<open>die\<close> on an established connection returns normally
  and leaves both writers closed, both tasks cancelled and the connection out of the
  registry; a call of \<^verbatim>\<open>die\<close> after it returns normally and leaves the world as it is.
\<close>

theorem die_idempotent:
  assumes "established w c"
  shows "\<exists>w'. die w c = (w', Inr ()) \<and>
           closed (writer (heap w' c)) \<and>
           (\<exists>cw. client_writer (heap w' c) = Some cw \<and> closed cw) \<and>
           server_loop_future (heap w' c) = CancelRequested \<and>
           client_loop_future (heap w' c) = Some CancelRequested \<and>
           c \<notin> set (protocols w') \<and>
           die w' c = (w', Inr ())"
proof -
  from die_established [OF assms] obtain w' where
    d: "die w c = (w', Inr ())" and
    rest: "closed (writer (heap w' c))"
      "\<exists>cw. client_writer (heap w' c) = Some cw \<and> closed cw"
      "server_loop_future (heap w' c) = CancelRequested"
      "client_loop_future (heap w' c) = Some CancelRequested"
      "c \<notin> set (protocols w')" and
    dead: "\<not> alive (heap w' c)"
    by blast
  from dead have "die w' c = (w', Inr ())" by (rule die_dead)
  with d rest show ?thesis by blast
qed

theorem die_idempotent_witness:
  "established (dialled_world [] []) 0 \<and>
   (\<exists>w'. die (dialled_world [] []) 0 = (w', Inr ()) \<and>
         closed (writer (heap w' 0)) \<and> 0 \<notin> set (protocols w') \<and>
         die w' 0 = (w', Inr ()))"
  using die_idempotent [of "dialled_world [] []" 0] established_dialled_world [of "[]" "[]"]
  by blast

text \<open>
  The claim C5 as it was stated, of every live connection, fails: on a connection that
  was accepted but whose real server is not dialled, \<^verbatim>\<open>die\<close> closes the client's writer
  and raises \<open>AttributeError\<close> at \<^verbatim>\<open>self._client_writer.close()\<close>; the connection stays
  alive and registered, and a second call runs the body again, as its second log record
  shows.
\<close>

theorem die_before_dial_counterexample:
  "alive (heap (factory_call empty_world [] fresh_writer) 0) \<and>
   protocols (factory_call empty_world [] fresh_writer) = [0] \<and>
   snd (die (factory_call empty_world [] fresh_writer) 0) = Inl AttributeError \<and>
   alive (heap (fst (die (factory_call empty_world [] fresh_writer) 0)) 0) \<and>
   protocols (fst (die (factory_call empty_world [] fresh_writer) 0)) = [0] \<and>
   logged (fst (die (factory_call empty_world [] fresh_writer) 0)) =
     [(WARNING, ''Initializing protocol.''), (INFO, ''Removing unknown player.'')] \<and>
   logged (fst (die (fst (die (factory_call empty_world [] fresh_writer) 0)) 0)) =
     [(WARNING, ''Initializing protocol.''), (INFO, ''Removing unknown player.''),
      (INFO, ''Removing unknown player.'')]"
  by (simp add: die_def factory_call_def empty_world_def init_def fresh_writer_def world_simps
      w_close_def Let_def)

text \<open>
  Claim C8, as amended. \<^verbatim>\<open>ServerFactory.remove\<close> takes the first occurrence of the
  connection out of the registry, which leaves a registry without duplicates without
  that connection and with every other one; for a connection that is not in the
  registry it raises \<open>ValueError\<close> and leaves the registry as it is.
\<close>

theorem remove_by_identity:
  "(c \<in> set (protocols w) \<longrightarrow>
      snd (remove w c) = Inr () \<and>
      protocols (fst (remove w c)) = remove1 c (protocols w) \<and>
      (distinct (protocols w) \<longrightarrow>
         set (protocols (fst (remove w c))) = set (protocols w) - {c})) \<and>
   (c \<notin> set (protocols w) \<longrightarrow> remove w c = (w, Inl ValueError))"
  by (simp add: remove_def)

theorem remove_by_identity_witness:
  "(1::nat) \<in> set [0, 1, 2] \<and> distinct [0::nat, 1, 2] \<and> (3::nat) \<notin> set [0, 1, 2] \<and>
   protocols (fst (remove (empty_world\<lparr>protocols := [0, 1, 2]\<rparr>) 1)) = [0, 2] \<and>
   snd (remove (empty_world\<lparr>protocols := [0, 1, 2]\<rparr>) 3) = Inl ValueError"
  using remove_by_identity [of 1 "empty_world\<lparr>protocols := [0, 1, 2]\<rparr>"]
        remove_by_identity [of 3 "empty_world\<lparr>protocols := [0, 1, 2]\<rparr>"]
  by simp

text \<open>
  The claim C8 as it was stated fails: removing a connection that the registry does not
  hold raises \<open>ValueError\<close>.
\<close>

theorem remove_absent_counterexample:
  "0 \<notin> set (protocols empty_world) \<and> snd (remove empty_world 0) = Inl ValueError"
  by (simp add: remove_def empty_world_def)

subsection \<open>A pump loop that meets a frame it cannot decompress\<close>
lemma read_packet_bad_frame:
  assumes "rsv s1 = Inr ((v, d), s2)" and "v < 0" and "nat (- v) \<le> length s2"
      and "dec (take (nat (- v)) s2) = None"
  shows "\<exists>l. read_packet rsv dec (t # s1) dir = (l, Inl ZlibError) \<and>
             (EXCEPTION, ''Couldn't decompress packet.'') \<in> set l"
  using assms by (simp add: read_packet_def readexactly_def ord_def)

lemma established_logs: "established (logs l w) c = established w c"
  by (simp add: established_def world_simps)

lemma finally_die_established:
  assumes "established w c"
  shows "\<exists>w'. finally_die w c e = (w', e) \<and>
           closed (writer (heap w' c)) \<and>
           (\<exists>cw. client_writer (heap w' c) = Some cw \<and> closed cw) \<and>
           server_loop_future (heap w' c) = CancelRequested \<and>
           client_loop_future (heap w' c) = Some CancelRequested \<and>
           c \<notin> set (protocols w') \<and> \<not> alive (heap w' c) \<and>
           logged w' = logged w @ [(INFO, case player (heap w c) of
                                            Some n \<Rightarrow> ''Removing player %s.''
                                          | None \<Rightarrow> ''Removing unknown player.'')]"
proof -
  from die_established [OF assms] obtain w' where
    d: "die w c = (w', Inr ())" and
    rest: "closed (writer (heap w' c))"
      "\<exists>cw. client_writer (heap w' c) = Some cw \<and> closed cw"
      "server_loop_future (heap w' c) = CancelRequested"
      "client_loop_future (heap w' c) = Some CancelRequested"
      "c \<notin> set (protocols w')" "\<not> alive (heap w' c)"
      "logged w' = logged w @ [(INFO, case player (heap w c) of
                                            Some n \<Rightarrow> ''Removing player %s.''
                                          | None \<Rightarrow> ''Removing unknown player.'')]"
    by blast
  from d have "finally_die w c e = (w', e)" by (simp add: finally_die_def)
  with rest show ?thesis by blast
qed

lemma server_pump_read_error:
  assumes "read_packet (vlq k) (inflate k) (reader (heap w c)) ''Client'' = (l, Inl e)"
  shows "server_pump k w c = Some (logs l w, e)"
  using assms by (simp add: server_pump.simps [of k w c])

lemma client_pump_read_error:
  assumes "client_reader (heap w c) = Some r"
      and "read_packet (vlq k) (inflate k) r ''Server'' = (l, Inl e)"
  shows "client_pump k w c = Some (logs l w, e)"
  using assms by (simp add: client_pump.simps [of k w c])

lemma server_loop_try_read_error:
  assumes "established w c"
      and "read_packet (vlq k) (inflate k) (reader (heap w c)) ''Client'' = (l, Inl e)"
  shows "\<exists>w'. server_pump k w c = Some (logs l w, e) \<and>
           server_loop_try k w c = Some (w', e) \<and>
           closed (writer (heap w' c)) \<and>
           (\<exists>cw. client_writer (heap w' c) = Some cw \<and> closed cw) \<and>
           c \<notin> set (protocols w') \<and>
           logged w' = logged w @ l @
             [(INFO, case player (heap w c) of
                       Some n \<Rightarrow> ''Removing player %s.''
                     | None \<Rightarrow> ''Removing unknown player.'')] \<and>
           die w' c = (w', Inr ())"
proof -
  have p: "server_pump k w c = Some (logs l w, e)"
    using assms(2) by (rule server_pump_read_error)
  have "established (logs l w) c"
    using assms(1) by (simp add: established_logs)
  from finally_die_established [OF this, of e] obtain w' where
    f: "finally_die (logs l w) c e = (w', e)" and
    rest: "closed (writer (heap w' c))"
      "\<exists>cw. client_writer (heap w' c) = Some cw \<and> closed cw"
      "c \<notin> set (protocols w')" and
    dead: "\<not> alive (heap w' c)" and
    lg: "logged w' = logged (logs l w) @
           [(INFO, case player (heap (logs l w) c) of
                     Some n \<Rightarrow> ''Removing player %s.''
                   | None \<Rightarrow> ''Removing unknown player.'')]"
    by blast
  have t: "server_loop_try k w c = Some (w', e)"
    by (simp add: server_loop_try_def p f)
  have d: "die w' c = (w', Inr ())"
    using dead by (rule die_dead)
  from lg have "logged w' = logged w @ l @
             [(INFO, case player (heap w c) of
                       Some n \<Rightarrow> ''Removing player %s.''
                     | None \<Rightarrow> ''Removing unknown player.'')]"
    by (simp add: world_simps)
  with p t rest d show ?thesis by blast
qed

lemma client_loop_read_error:
  assumes "established w c"
      and "client_reader (heap w c) = Some r"
      and "read_packet (vlq k) (inflate k) r ''Server'' = (l, Inl e)"
  shows "\<exists>w'. client_pump k w c = Some (logs l w, e) \<and>
           client_loop k w c = Some (w', e) \<and>
           closed (writer (heap w' c)) \<and>
           (\<exists>cw. client_writer (heap w' c) = Some cw \<and> closed cw) \<and>
           c \<notin> set (protocols w') \<and>
           logged w' = logged w @ l @
             [(INFO, case player (heap w c) of
                       Some n \<Rightarrow> ''Removing player %s.''
                     | None \<Rightarrow> ''Removing unknown player.'')] \<and>
           die w' c = (w', Inr ())"
proof -
  have p: "client_pump k w c = Some (logs l w, e)"
    using assms(2,3) by (rule client_pump_read_error)
  have "established (logs l w) c"
    using assms(1) by (simp add: established_logs)
  from finally_die_established [OF this, of e] obtain w' where
    f: "finally_die (logs l w) c e = (w', e)" and
    rest: "closed (writer (heap w' c))"
      "\<exists>cw. client_writer (heap w' c) = Some cw \<and> closed cw"
      "c \<notin> set (protocols w')" and
    dead: "\<not> alive (heap w' c)" and
    lg: "logged w' = logged (logs l w) @
           [(INFO, case player (heap (logs l w) c) of
                     Some n \<Rightarrow> ''Removing player %s.''
                   | None \<Rightarrow> ''Removing unknown player.'')]"
    by blast
  have t: "client_loop k w c = Some (w', e)"
    by (simp add: client_loop_def p f)
  have d: "die w' c = (w', Inr ())"
    using dead by (rule die_dead)
  from lg have "logged w' = logged w @ l @
             [(INFO, case player (heap w c) of
                       Some n \<Rightarrow> ''Removing player %s.''
                     | None \<Rightarrow> ''Removing unknown player.'')]"
    by (simp add: world_simps)
  with p t rest d show ?thesis by blast
qed
text \<open>
  Claim C6. An established connection reads a frame whose VLQ is negative and whose
  payload the decompressor rejects. Then \<^verbatim>\<open>read_packet\<close> logs the failure at the level of
  an exception and raises the decompressor's error; the loop ends with that error, having
  done nothing else; the \<^verbatim>\<open>try\<close> statement ends with the same error after one run of
  the body of \<^verbatim>\<open>die\<close> (one removal record in the log), both writers are closed and the
  connection is out of the registry; a later \<^verbatim>\<open>die\<close>, such as that of the other,
  cancelled loop, changes nothing. The first half is \<^verbatim>\<open>server_loop\<close>, the second
  \<^verbatim>\<open>client_loop\<close>.
\<close>
theorem decompress_failure_teardown:
  assumes est: "established w c"
      and bad: "vlq k s1 = Inr ((v, d), s2)" "v < 0" "nat (- v) \<le> length s2"
               "inflate k (take (nat (- v)) s2) = None"
  shows "(reader (heap w c) = t # s1 \<longrightarrow>
           (\<exists>l w'. read_packet (vlq k) (inflate k) (t # s1) ''Client'' = (l, Inl ZlibError) \<and>
                   (EXCEPTION, ''Couldn't decompress packet.'') \<in> set l \<and>
                   server_pump k w c = Some (logs l w, ZlibError) \<and>
                   server_loop_try k w c = Some (w', ZlibError) \<and>
                   closed (writer (heap w' c)) \<and>
                   (\<exists>cw. client_writer (heap w' c) = Some cw \<and> closed cw) \<and>
                   c \<notin> set (protocols w') \<and>
                   logged w' = logged w @ l @
                     [(INFO, case player (heap w c) of
                               Some n \<Rightarrow> ''Removing player %s.''
                             | None \<Rightarrow> ''Removing unknown player.'')] \<and>
                   die w' c = (w', Inr ()))) \<and>
         (client_reader (heap w c) = Some (t # s1) \<longrightarrow>
           (\<exists>l w'. read_packet (vlq k) (inflate k) (t # s1) ''Server'' = (l, Inl ZlibError) \<and>
                   (EXCEPTION, ''Couldn't decompress packet.'') \<in> set l \<and>
                   client_pump k w c = Some (logs l w, ZlibError) \<and>
                   client_loop k w c = Some (w', ZlibError) \<and>
                   closed (writer (heap w' c)) \<and>
                   (\<exists>cw. client_writer (heap w' c) = Some cw \<and> closed cw) \<and>
                   c \<notin> set (protocols w') \<and>
                   logged w' = logged w @ l @
                     [(INFO, case player (heap w c) of
                               Some n \<Rightarrow> ''Removing player %s.''
                             | None \<Rightarrow> ''Removing unknown player.'')] \<and>
                   die w' c = (w', Inr ())))"
proof (intro conjI impI)
  assume r: "reader (heap w c) = t # s1"
  from read_packet_bad_frame [of "vlq k" s1 v d s2 "inflate k" t "''Client''"] bad obtain l where
    l: "read_packet (vlq k) (inflate k) (t # s1) ''Client'' = (l, Inl ZlibError)"
       "(EXCEPTION, ''Couldn't decompress packet.'') \<in> set l"
    by blast
  from l(1) r have "read_packet (vlq k) (inflate k) (reader (heap w c)) ''Client'' =
                      (l, Inl ZlibError)"
    by simp
  from server_loop_try_read_error [OF est this] l
  show "\<exists>l w'. read_packet (vlq k) (inflate k) (t # s1) ''Client'' = (l, Inl ZlibError) \<and>
                   (EXCEPTION, ''Couldn't decompress packet.'') \<in> set l \<and>
                   server_pump k w c = Some (logs l w, ZlibError) \<and>
                   server_loop_try k w c = Some (w', ZlibError) \<and>
                   closed (writer (heap w' c)) \<and>
                   (\<exists>cw. client_writer (heap w' c) = Some cw \<and> closed cw) \<and>
                   c \<notin> set (protocols w') \<and>
                   logged w' = logged w @ l @
                     [(INFO, case player (heap w c) of
                               Some n \<Rightarrow> ''Removing player %s.''
                             | None \<Rightarrow> ''Removing unknown player.'')] \<and>
                   die w' c = (w', Inr ())"
    by blast
next
  assume r: "client_reader (heap w c) = Some (t # s1)"
  from read_packet_bad_frame [of "vlq k" s1 v d s2 "inflate k" t "''Server''"] bad obtain l where
    l: "read_packet (vlq k) (inflate k) (t # s1) ''Server'' = (l, Inl ZlibError)"
       "(EXCEPTION, ''Couldn't decompress packet.'') \<in> set l"
    by blast
  from client_loop_read_error [OF est r l(1)] l
  show "\<exists>l w'. read_packet (vlq k) (inflate k) (t # s1) ''Server'' = (l, Inl ZlibError) \<and>
                   (EXCEPTION, ''Couldn't decompress packet.'') \<in> set l \<and>
                   client_pump k w c = Some (logs l w, ZlibError) \<and>
                   client_loop k w c = Some (w', ZlibError) \<and>
                   closed (writer (heap w' c)) \<and>
                   (\<exists>cw. client_writer (heap w' c) = Some cw \<and> closed cw) \<and>
                   c \<notin> set (protocols w') \<and>
                   logged w' = logged w @ l @
                     [(INFO, case player (heap w c) of
                               Some n \<Rightarrow> ''Removing player %s.''
                             | None \<Rightarrow> ''Removing unknown player.'')] \<and>
                   die w' c = (w', Inr ())"
    by blast
qed

lemma demo_bad_frame:
  "vlq demo_collab [3, 1, 2] = Inr ((- 2, [3]), [1, 2]) \<and>
   inflate demo_collab (take (nat (- (- 2))) [1, 2]) = None"
  by (simp add: demo_collab_def demo_vlq_3)

theorem decompress_failure_teardown_witness:
  "established (dialled_world [4, 3, 1, 2] [5, 3, 1, 2]) 0 \<and>
   vlq demo_collab [3, 1, 2] = Inr ((- 2, [3]), [1, 2]) \<and>
   inflate demo_collab (take (nat (- (- 2))) [1, 2]) = None \<and>
   reader (heap (dialled_world [4, 3, 1, 2] [5, 3, 1, 2]) 0) = [4, 3, 1, 2] \<and>
   (\<exists>w'. server_loop_try demo_collab (dialled_world [4, 3, 1, 2] [5, 3, 1, 2]) 0 =
           Some (w', ZlibError) \<and>
         closed (writer (heap w' 0)) \<and> 0 \<notin> set (protocols w') \<and>
         die w' 0 = (w', Inr ()))"
proof -
  have r: "reader (heap (dialled_world [4, 3, 1, 2] [5, 3, 1, 2]) 0) = [4, 3, 1, 2]"
    by (simp add: dialled_world_def factory_call_def empty_world_def init_def world_simps
        Let_def)
  have b: "vlq demo_collab [3, 1, 2] = Inr ((- 2, [3]), [1, 2])"
    "(- 2 :: int) < 0" "nat (- (- 2)) \<le> length [1 :: byte, 2]"
    "inflate demo_collab (take (nat (- (- 2))) [1, 2]) = None"
    using demo_bad_frame by simp_all
  from decompress_failure_teardown
         [OF established_dialled_world [of "[4, 3, 1, 2]" "[5, 3, 1, 2]"] b, of 4] r
  have "\<exists>w'. server_loop_try demo_collab (dialled_world [4, 3, 1, 2] [5, 3, 1, 2]) 0 =
           Some (w', ZlibError) \<and>
         closed (writer (heap w' 0)) \<and> 0 \<notin> set (protocols w') \<and>
         die w' 0 = (w', Inr ())"
    by blast
  with established_dialled_world [of "[4, 3, 1, 2]" "[5, 3, 1, 2]"] r b show ?thesis
    by blast
qed

subsection \<open>Runs on concrete streams\<close>
lemma demo_vlq_0: "read_signed_vlq (0 # s) = Inr ((0, [0]), s)"
  by (simp add: read_signed_vlq_def)

lemma read_packet_demo_empty_frame:
  "read_packet read_signed_vlq dec (4 # 0 # s) dir =
     ([(DEBUG, ''New packet. Direction: %s''), (DEBUG, ''Attempting to read packet type''),
       (DEBUG, ''Got packet type of %d''), (DEBUG, ''Attempting to read/parse packet size.''),
       (DEBUG, ''Attempting to read %d bytes of data.''), (DEBUG, ''Packet is not compressed.''),
       (DEBUG, ''Completed packet parsing, returning.'')],
      Inr (\<lparr>ptype = 4, psize = 0, compressed = False, data = [], original_data = [4, 0],
             direction = dir\<rparr>, s))"
  by (simp add: read_packet_def readexactly_def ord_def demo_vlq_0)

lemma read_packet_eof:
  "read_packet rsv dec [] dir =
     ([(DEBUG, ''New packet. Direction: %s''), (DEBUG, ''Attempting to read packet type'')],
      Inl IncompleteReadError)"
  by (simp add: read_packet_def readexactly_def)
text \<open>
  Claim C3 at a failing input. The client sends the frame \<open>04 00\<close> and the plugins
  forward it. The loop writes the frame to the writer towards the real server, but the
  \<^verbatim>\<open>drain\<close> of \<^verbatim>\<open>write_client\<close> goes to the writer of the client: the writer that was
  written to is never drained.
\<close>
theorem write_client_drains_wrong_writer:
  "\<exists>w. server_pump demo_collab (dialled_world [4, 0] []) 0 = Some (w, IncompleteReadError) \<and>
       client_writer (heap w 0) = Some (fresh_writer\<lparr>writes := [[4, 0]]\<rparr>) \<and>
       writer (heap w 0) = fresh_writer\<lparr>drains := 1\<rparr>"
  apply (subst server_pump.simps)
  apply (simp add: dialled_world_def factory_call_def empty_world_def init_def world_simps Let_def
      demo_collab_def read_packet_demo_empty_frame check_plugins_def write_client_def
      drain_writer_def w_write_def fresh_writer_def)
  apply (subst server_pump.simps)
  apply (simp add: world_simps read_packet_eof)
  done
text \<open>
  Claim C9 at a failing input. A client is accepted and the dial of the real server is
  refused. \<^verbatim>\<open>server_loop\<close> ends with the error of the dial; the connection is still in
  the registry, its flag \<^verbatim>\<open>_alive\<close> is set and the writer of the client is not closed.
\<close>
theorem dial_failure_leaks_connection:
  "\<exists>w. server_loop demo_collab (Inl ConnectionRefusedError)
         (factory_call empty_world [4, 0] fresh_writer) 0 = Some (w, ConnectionRefusedError) \<and>
       0 \<in> set (protocols w) \<and> \<not> closed (writer (heap w 0)) \<and> alive (heap w 0)"
  by (simp add: server_loop_def factory_call_def empty_world_def init_def fresh_writer_def
      world_simps Let_def)

subsection \<open>Broadcast\<close>
lemma send_message_snd:
  "snd (send_message k w c message world client_id name channel) =
     (if state (heap w c) = Some CONNECTED_WITH_HEARTBEAT
      then (case drain_exc (writer (heap w c)) of Some e \<Rightarrow> Inl e | None \<Rightarrow> Inr ())
      else Inr ())"
  by (simp add: send_message_def raw_write_def drain_writer_simps world_simps w_write_def Let_def)

lemma send_message_heap:
  "heap (fst (send_message k w c message world client_id name channel)) c' =
     (if c' = c \<and> state (heap w c) = Some CONNECTED_WITH_HEARTBEAT
      then (heap w c)\<lparr>writer := (writer (heap w c))
              \<lparr>writes := writes (writer (heap w c)) @
                         [build_packet k 4 (chat_build k message world client_id name channel)],
               drains := Suc (drains (writer (heap w c)))\<rparr>\<rparr>
      else heap w c')"
  by (simp add: send_message_def raw_write_def drain_writer_simps world_simps w_write_def Let_def)

lemma send_message_protocols:
  "protocols (fst (send_message k w c message world client_id name channel)) = protocols w"
  by (simp add: send_message_def raw_write_def drain_writer_simps world_simps Let_def)

lemma broadcast_loop_connection_errors:
  assumes "distinct cs"
      and "\<forall>c \<in> set cs. \<forall>e. drain_exc (writer (heap w c)) = Some e \<longrightarrow> is_ConnectionError e"
  shows "snd (broadcast_loop k w cs message world name channel client_id) = Inr () \<and>
         (\<forall>c. writes (writer (heap (fst (broadcast_loop k w cs message world name channel
                                          client_id)) c)) =
               writes (writer (heap w c)) @
                 (if c \<in> set cs \<and> state (heap w c) = Some CONNECTED_WITH_HEARTBEAT
                  then [build_packet k 4 (chat_build k message world client_id name channel)]
                  else [])) \<and>
         protocols (fst (broadcast_loop k w cs message world name channel client_id)) =
           protocols w"
  using assms
proof (induction cs arbitrary: w)
  case Nil
  then show ?case by simp
next
  case (Cons a cs)
  let ?r = "send_message k w a message world client_id name channel"
  let ?w1 = "fst ?r"
  have other: "\<And>c. c \<noteq> a \<Longrightarrow> heap ?w1 c = heap w c"
    by (simp add: send_message_heap)
  have d: "distinct cs" and na: "a \<notin> set cs" using Cons.prems(1) by simp_all
  have e: "\<forall>c \<in> set cs. \<forall>e. drain_exc (writer (heap ?w1 c)) = Some e \<longrightarrow> is_ConnectionError e"
  proof (intro ballI allI impI)
    fix c e
    assume c: "c \<in> set cs" and x: "drain_exc (writer (heap ?w1 c)) = Some e"
    from c na have "c \<noteq> a" by auto
    with x have "drain_exc (writer (heap w c)) = Some e" by (simp add: other)
    with c Cons.prems(2) show "is_ConnectionError e" by simp
  qed
  note ih = Cons.IH [OF d e]
  have step: "broadcast_loop k w (a # cs) message world name channel client_id =
          broadcast_loop k ?w1 cs message world name channel client_id"
  proof (cases "snd ?r")
    case (Inl x)
    then have "is_ConnectionError x"
      using Cons.prems(2) by (auto simp add: send_message_snd split: if_splits option.splits)
    with Inl show ?thesis by (cases ?r) simp
  next
    case (Inr u)
    then show ?thesis by (cases ?r) simp
  qed
  show ?case
    unfolding step using ih na
    by (auto simp add: send_message_heap send_message_protocols)
qed
text \<open>
  The loop of \<^verbatim>\<open>broadcast\<close> among other tasks: where it stops, what a round does, and
  that with idle other tasks it is the recursion over the list.
\<close>

lemma broadcast_from_done:
  "\<not> i < length (protocols w) \<Longrightarrow>
     broadcast_from k others w i message world name channel client_id = Some (w, Inr ())"
  by (simp add: broadcast_from.simps [of k others w i])





lemma broadcast_from_no_others:
  "n = length (protocols w) - i \<Longrightarrow>
     broadcast_from k no_others w i message world name channel client_id =
       Some (broadcast_loop k w (drop i (protocols w)) message world name channel client_id)"
proof (induction n arbitrary: w i)
  case 0
  then show ?case by (simp add: broadcast_from_done)
next
  case (Suc n)
  let ?c = "protocols w ! i"
  let ?r = "send_message k w ?c message world client_id name channel"
  from Suc.prems have i: "i < length (protocols w)" by simp
  then have dr: "drop i (protocols w) = ?c # drop (Suc i) (protocols w)"
    by (simp add: Cons_nth_drop_Suc)
  obtain w1 r where sm: "?r = (w1, r)" by (cases ?r)
  then have "fst ?r = w1" by simp
  then have p1: "protocols w1 = protocols w"
    using send_message_protocols [of k w ?c message world client_id name channel] by simp
  with Suc.prems have n: "n = length (protocols w1) - Suc i" by simp
  note ih = Suc.IH [OF n]
  have no: "no_others i w1 = w1" by (simp add: no_others_def)
  show ?case
    using i sm ih p1
    by (cases r)
       (simp_all add: broadcast_from.simps [of k no_others w i] dr no)
qed

lemma broadcast_live_no_others:
  "broadcast_live k no_others w message world name channel client_id =
     Some (broadcast k w message world name channel client_id)"
  using broadcast_from_no_others [of "length (protocols w)" w 0]
  by (simp add: broadcast_live_def broadcast_def)





subsection \<open>The state of a connection\<close>
lemma die_state: "state (heap (fst (die w c)) c') = state (heap w c')"
  by (simp add: die_def remove_def world_simps Let_def split: option.splits)

lemma remove_state: "state (heap (fst (remove w c)) c') = state (heap w c')"
  by (simp add: remove_def)

lemma write_pkt_state: "state (heap (fst (write_pkt w c p)) c') = state (heap w c')"
  by (simp add: write_pkt_def drain_writer_simps world_simps)

lemma raw_write_state: "state (heap (fst (raw_write w c d)) c') = state (heap w c')"
  by (simp add: raw_write_def drain_writer_simps world_simps)

lemma write_client_state: "state (heap (fst (write_client w c p)) c') = state (heap w c')"
  by (simp add: write_client_def drain_writer_simps world_simps split: option.splits)

lemma send_message_state:
  "state (heap (fst (send_message k w c message world client_id name channel)) c') =
     state (heap w c')"
  by (simp add: send_message_def raw_write_state Let_def)

lemma broadcast_loop_state:
  "state (heap (fst (broadcast_loop k w cs message world name channel client_id)) c') =
     state (heap w c')"
proof (induction cs arbitrary: w)
  case Nil
  then show ?case by simp
next
  case (Cons a cs)
  obtain w1 r where s: "send_message k w a message world client_id name channel = (w1, r)"
    by (cases "send_message k w a message world client_id name channel")
  then have "state (heap w1 c') = state (heap w c')"
    using send_message_state [of k w a message world client_id name channel c'] by simp
  with s Cons.IH [of w1] show ?case
    by (cases r) simp_all
qed

lemma check_plugins_state:
  "plugins_keep_state k \<Longrightarrow> state (heap (fst (check_plugins k w c p)) c') = state (heap w c')"
  by (simp add: check_plugins_def plugins_keep_state_def split: option.splits)

lemma finally_die_state: "state (heap (fst (finally_die w c e)) c') = state (heap w c')"
proof -
  obtain w1 r where d: "die w c = (w1, r)" by (cases "die w c")
  with die_state [of w c c'] have "state (heap w1 c') = state (heap w c')" by simp
  with d show ?thesis by (cases r) (simp_all add: finally_die_def)
qed

lemma server_pump_state:
  "server_pump k w c = Some y \<Longrightarrow> plugins_keep_state k \<Longrightarrow>
     state (heap (fst y) c') = state (heap w c')"
proof (induction k w c y rule: server_pump.raw_induct [rotated 1, consumes 1])
  case (1 pump k w c y)
  note body = "1.hyps" and pks = "1.prems"
  obtain l r where rp: "read_packet (vlq k) (inflate k) (reader (heap w c)) ''Client'' = (l, r)"
    by (cases "read_packet (vlq k) (inflate k) (reader (heap w c)) ''Client''")
  show ?case
  proof (cases r)
    case (Inl e)
    with rp body show ?thesis by (auto simp add: world_simps)
  next
    case (Inr pr)
    obtain p rest where pr: "pr = (p, rest)" by (cases pr)
    let ?w1 = "upd c (\<lambda>s. s\<lparr>reader := rest\<rparr>) (logs l w)"
    have s1: "state (heap ?w1 c') = state (heap w c')" by (simp add: world_simps)
    obtain w2 v where cp: "check_plugins k ?w1 c p = (w2, v)"
      by (cases "check_plugins k ?w1 c p")
    have s2: "state (heap w2 c') = state (heap w c')"
      using check_plugins_state [OF pks, of ?w1 c p c'] cp s1 by simp
    show ?thesis
    proof (cases v)
      case (Inl e)
      with rp Inr pr cp body s2 show ?thesis by auto
    next
      case (Inr flag)
      note flag = Inr
      show ?thesis
      proof (cases flag)
        case False
        with rp \<open>r = Inr pr\<close> pr cp flag body have "pump k w2 c = Some y" by simp
        from "1.IH" [OF this pks] s2 show ?thesis by simp
      next
        case True
        obtain w3 u where wc: "write_client w2 c p = (w3, u)" by (cases "write_client w2 c p")
        have s3: "state (heap w3 c') = state (heap w c')"
          using write_client_state [of w2 c p c'] wc s2 by simp
        show ?thesis
        proof (cases u)
          case (Inl e)
          with rp \<open>r = Inr pr\<close> pr cp flag True wc body s3 show ?thesis by auto
        next
          case (Inr x)
          with rp \<open>r = Inr pr\<close> pr cp flag True wc body have "pump k w3 c = Some y"
            by simp
          from "1.IH" [OF this pks] s3 show ?thesis by simp
        qed
      qed
    qed
  qed
qed

lemma client_pump_state:
  "client_pump k w c = Some y \<Longrightarrow> plugins_keep_state k \<Longrightarrow>
     state (heap (fst y) c') = state (heap w c')"
proof (induction k w c y rule: client_pump.raw_induct [rotated 1, consumes 1])
  case (1 pump k w c y)
  note body = "1.hyps" and pks = "1.prems"
  show ?case
  proof (cases "client_reader (heap w c)")
    case None
    with body show ?thesis by (auto simp add: world_simps)
  next
    case (Some rd)
    note rd = Some
    obtain l r where rp: "read_packet (vlq k) (inflate k) rd ''Server'' = (l, r)"
      by (cases "read_packet (vlq k) (inflate k) rd ''Server''")
    show ?thesis
    proof (cases r)
    case (Inl e)
    with rd rp body show ?thesis by (auto simp add: world_simps)
  next
    case (Inr pr)
    obtain p rest where pr: "pr = (p, rest)" by (cases pr)
    let ?w1 = "upd c (\<lambda>s. s\<lparr>client_reader := Some rest\<rparr>) (logs l w)"
    have s1: "state (heap ?w1 c') = state (heap w c')" by (simp add: world_simps)
    obtain w2 v where cp: "check_plugins k ?w1 c p = (w2, v)"
      by (cases "check_plugins k ?w1 c p")
    have s2: "state (heap w2 c') = state (heap w c')"
      using check_plugins_state [OF pks, of ?w1 c p c'] cp s1 by simp
    show ?thesis
    proof (cases v)
      case (Inl e)
      with rd rp Inr pr cp body s2 show ?thesis by auto
    next
      case (Inr flag)
      note flag = Inr
      show ?thesis
      proof (cases flag)
        case False
        with rd rp \<open>r = Inr pr\<close> pr cp flag body have "pump k w2 c = Some y" by simp
        from "1.IH" [OF this pks] s2 show ?thesis by simp
      next
        case True
        obtain w3 u where wc: "write_pkt w2 c p = (w3, u)" by (cases "write_pkt w2 c p")
        have s3: "state (heap w3 c') = state (heap w c')"
          using write_pkt_state [of w2 c p c'] wc s2 by simp
        show ?thesis
        proof (cases u)
          case (Inl e)
          with rd rp \<open>r = Inr pr\<close> pr cp flag True wc body s3 show ?thesis by auto
        next
          case (Inr x)
          with rd rp \<open>r = Inr pr\<close> pr cp flag True wc body have "pump k w3 c = Some y"
            by simp
          from "1.IH" [OF this pks] s3 show ?thesis by simp
        qed
      qed
    qed
  qed
qed
qed

lemma server_loop_state:
  assumes "server_loop k dial w c = Some y" and "plugins_keep_state k"
  shows "state (heap (fst y) c') = state (heap w c')"
proof (cases dial)
  case (Inl e)
  with assms(1) show ?thesis by (auto simp add: server_loop_def)
next
  case (Inr pr)
  obtain r cw where pr: "pr = (r, cw)" by (cases pr)
  let ?w2 = "upd c (\<lambda>s. s\<lparr>client_loop_future := Some Pending\<rparr>)
               (upd c (\<lambda>s. s\<lparr>client_reader := Some r, client_writer := Some cw\<rparr>) w)"
  have s2: "state (heap ?w2 c') = state (heap w c')" by (simp add: world_simps)
  from assms(1) Inr pr have t: "server_loop_try k ?w2 c = Some y"
    by (simp add: server_loop_def)
  then obtain y1 where p: "server_pump k ?w2 c = Some y1"
    and y: "y = finally_die (fst y1) c (snd y1)"
    by (auto simp add: server_loop_try_def split: option.splits)
  from server_pump_state [OF p assms(2), of c'] s2 y show ?thesis
    by (simp add: finally_die_state)
qed

lemma client_loop_state:
  assumes "client_loop k w c = Some y" and "plugins_keep_state k"
  shows "state (heap (fst y) c') = state (heap w c')"
proof -
  from assms(1) obtain y1 where p: "client_pump k w c = Some y1"
    and y: "y = finally_die (fst y1) c (snd y1)"
    by (auto simp add: client_loop_def split: option.splits)
  from client_pump_state [OF p assms(2), of c'] y show ?thesis
    by (simp add: finally_die_state)
qed

lemma factory_call_state:
  "state (heap (factory_call w r wr) c') = (if c' = next_id w then None else state (heap w c'))"
  by (simp add: factory_call_def init_def world_simps Let_def)

lemma demo_plugins_keep_state: "plugins_keep_state demo_collab"
  by (simp add: plugins_keep_state_def demo_collab_def)

text \<open>
  Claim C10. A connection is constructed with the state \<^verbatim>\<open>None\<close>, which is none of the
  seven stages. No operation of the core assigns the state: teardown, the registry, the
  three writes, \<^verbatim>\<open>send_message\<close> and \<^verbatim>\<open>broadcast\<close> leave the state of every connection
  as it is, and so do both loops when the plugins do. On a connection whose state is
  still \<^verbatim>\<open>None\<close>, \<^verbatim>\<open>send_message\<close> leaves the world as it is, so it writes nothing.
\<close>

theorem state_None_until_plugins_set_it:
  "(\<forall>s. state (init r wr) \<noteq> Some s) \<and>
   state (heap (factory_call w r wr) (next_id w)) = None \<and>
   (c' \<noteq> next_id w \<longrightarrow> state (heap (factory_call w r wr) c') = state (heap w c')) \<and>
   state (heap (fst (die w c)) c') = state (heap w c') \<and>
   state (heap (fst (remove w c)) c') = state (heap w c') \<and>
   state (heap (fst (write_pkt w c p)) c') = state (heap w c') \<and>
   state (heap (fst (raw_write w c d)) c') = state (heap w c') \<and>
   state (heap (fst (write_client w c p)) c') = state (heap w c') \<and>
   state (heap (fst (send_message k w c message world client_id name channel)) c') =
     state (heap w c') \<and>
   state (heap (fst (broadcast k w message world name channel client_id)) c') =
     state (heap w c') \<and>
   (plugins_keep_state k \<longrightarrow>
      (\<forall>y. server_loop k dial w c = Some y \<longrightarrow> state (heap (fst y) c') = state (heap w c')) \<and>
      (\<forall>y. client_loop k w c = Some y \<longrightarrow> state (heap (fst y) c') = state (heap w c'))) \<and>
   (state (heap w c) = None \<longrightarrow>
      send_message k w c message world client_id name channel = (w, Inr ()))"
proof -
  have a: "\<forall>s. state (init r wr) \<noteq> Some s" by (simp add: init_def)
  have b: "plugins_keep_state k \<longrightarrow>
      (\<forall>y. server_loop k dial w c = Some y \<longrightarrow> state (heap (fst y) c') = state (heap w c')) \<and>
      (\<forall>y. client_loop k w c = Some y \<longrightarrow> state (heap (fst y) c') = state (heap w c'))"
    using server_loop_state client_loop_state by blast
  have e: "state (heap w c) = None \<longrightarrow>
      send_message k w c message world client_id name channel = (w, Inr ())"
    by (simp add: send_message_def)
  show ?thesis
    using a b e
    by (simp add: factory_call_state die_state remove_state write_pkt_state raw_write_state
        write_client_state send_message_state broadcast_def broadcast_loop_state)
qed

lemma demo_pump_run:
  "\<exists>w. server_pump demo_collab (dialled_world [4, 0] []) 0 = Some (w, IncompleteReadError)"
  apply (subst server_pump.simps)
  apply (simp add: dialled_world_def factory_call_def empty_world_def init_def world_simps Let_def
      demo_collab_def read_packet_demo_empty_frame check_plugins_def write_client_def
      drain_writer_def w_write_def fresh_writer_def)
  apply (subst server_pump.simps)
  apply (simp add: world_simps read_packet_eof)
  done

lemma demo_loop_run:
  "\<exists>y. server_loop demo_collab (Inr ([], fresh_writer))
         (factory_call empty_world [4, 0] fresh_writer) 0 = Some y"
proof -
  from demo_pump_run obtain w where
    "server_pump demo_collab (dialled_world [4, 0] []) 0 = Some (w, IncompleteReadError)"
    by blast
  moreover have "upd 0 (\<lambda>s. s\<lparr>client_loop_future := Some Pending\<rparr>)
          (upd 0 (\<lambda>s. s\<lparr>client_reader := Some [], client_writer := Some fresh_writer\<rparr>)
             (factory_call empty_world [4, 0] fresh_writer)) = dialled_world [4, 0] []"
    by (simp add: dialled_world_def upd_def)
  ultimately show ?thesis
    by (simp add: server_loop_def server_loop_try_def)
qed

theorem state_None_until_plugins_set_it_witness:
  "plugins_keep_state demo_collab \<and>
   state (heap (factory_call empty_world [4, 0] fresh_writer) 0) = None \<and>
   (\<exists>y. server_loop demo_collab (Inr ([], fresh_writer))
          (factory_call empty_world [4, 0] fresh_writer) 0 = Some y \<and>
        state (heap (fst y) 0) = None) \<and>
   send_message demo_collab (factory_call empty_world [4, 0] fresh_writer) 0 ''hi'' [] 0 [] 0 =
     (factory_call empty_world [4, 0] fresh_writer, Inr ())"
proof -
  have n: "next_id empty_world = 0" by (simp add: empty_world_def)
  note t1 = state_None_until_plugins_set_it
              [where w = empty_world and r = "[4, 0]" and wr = fresh_writer]
  note t2 = state_None_until_plugins_set_it
              [where w = "factory_call empty_world [4, 0] fresh_writer" and c = 0 and c' = 0
                 and k = demo_collab and dial = "Inr ([], fresh_writer)"
                 and message = "''hi''" and world = "[]" and client_id = 0 and name = "[]"
                 and channel = 0]
  from t1 n have s0: "state (heap (factory_call empty_world [4, 0] fresh_writer) 0) = None"
    by simp
  from t2 s0 demo_plugins_keep_state demo_loop_run show ?thesis
    by metis
qed

subsection \<open>The registry stays well formed\<close>

text \<open>
  The conditions under which the teardown results above are stated hold on every
  connection that was accepted into a well-formed registry and whose dial succeeded, and
  accepting, removing and tearing down keep the registry well formed.
\<close>

lemma registry_ok_empty_world: "registry_ok empty_world"
  by (simp add: registry_ok_def empty_world_def)

lemma registry_ok_factory_call:
  assumes "registry_ok w"
  shows "registry_ok (factory_call w r wr)"
    and "next_id w \<in> set (protocols (factory_call w r wr))"
    and "alive (heap (factory_call w r wr) (next_id w))"
  using assms
  by (auto simp add: registry_ok_def factory_call_def init_def world_simps Let_def)

lemma registry_ok_remove: "registry_ok w \<Longrightarrow> registry_ok (fst (remove w c))"
  by (auto simp add: registry_ok_def remove_def)

lemma registry_ok_upd: "registry_ok (upd c f w) = registry_ok w"
  by (simp add: registry_ok_def world_simps)

lemma registry_ok_logs: "registry_ok (logs l w) = registry_ok w"
  by (simp add: registry_ok_def world_simps)

lemma registry_ok_die: "registry_ok w \<Longrightarrow> registry_ok (fst (die w c))"
  by (auto simp add: die_def Let_def registry_ok_upd registry_ok_logs remove_def registry_ok_def world_simps
      split: option.splits)

lemma established_after_dial:
  assumes "registry_ok w"
  shows "established
           (upd (next_id w) (\<lambda>s. s\<lparr>client_loop_future := Some Pending\<rparr>)
              (upd (next_id w) (\<lambda>s. s\<lparr>client_reader := Some r', client_writer := Some cw\<rparr>)
                 (factory_call w r wr)))
           (next_id w)"
  using registry_ok_factory_call [OF assms, of r wr]
  by (simp add: established_def registry_ok_def world_simps)

end
